theory Spec2Isabelle
  imports Main "HOL-Library.Word"
begin

section \<open>Strings, whitespace and the email pattern\<close>

text \<open>
  The form fields of a submission are text. A JavaScript string is modelled as a
  \<^typ>\<open>string\<close>, one \<^typ>\<open>char\<close> per code unit below 256. Both
  \<^verbatim>\<open>String.prototype.trim\<close> and the class \<^verbatim>\<open>\s\<close> of a regular
  expression use the same set of white space and line terminators; in that range these
  are TAB, LF, VT, FF, CR, SPACE and NBSP.
\<close>

definition is_space :: "char \<Rightarrow> bool" where
  "is_space c =
     (c \<in> {CHR 0x09, CHR 0x0A, CHR 0x0B, CHR 0x0C, CHR 0x0D, CHR 0x20, CHR 0xA0})"

definition trim :: "string \<Rightarrow> string" where
  "trim s = rev (dropWhile is_space (rev (dropWhile is_space s)))"

text \<open>
  A regular expression anchored by \<^verbatim>\<open>^\<close> and \<^verbatim>\<open>$\<close> is the predicate of the
  strings it matches in full. Concatenation tries every way of cutting the string in
  two; \<^verbatim>\<open>[...]+\<close> over a character class holds of the non-empty strings of that
  class; a literal holds of the one-character string.
\<close>

type_synonym regex = "string \<Rightarrow> bool"

definition splits :: "string \<Rightarrow> (string \<times> string) list" where
  "splits s = map (\<lambda>i. (take i s, drop i s)) [0..<Suc (length s)]"

definition re_seq :: "regex \<Rightarrow> regex \<Rightarrow> regex" where
  "re_seq p q s = list_ex (\<lambda>(a, b). p a \<and> q b) (splits s)"

definition re_plus :: "(char \<Rightarrow> bool) \<Rightarrow> regex" where
  "re_plus cls s = (s \<noteq> [] \<and> list_all cls s)"

definition re_lit :: "char \<Rightarrow> regex" where
  "re_lit c s = (s = [c])"

text \<open>The class \<^verbatim>\<open>[^\s@]\<close>.\<close>

definition not_space_at :: "char \<Rightarrow> bool" where
  "not_space_at c = (\<not> is_space c \<and> c \<noteq> CHR ''@'')"

text \<open>
  \<^verbatim>\<open>const emailRegex = /^[^\s@]+@[^\s@]+\.[^\s@]+$/;\<close> and
  \<^verbatim>\<open>emailRegex.test(email)\<close>.
\<close>

definition emailRegex :: regex where
  "emailRegex =
     re_seq (re_plus not_space_at)
       (re_seq (re_lit CHR ''@'')
         (re_seq (re_plus not_space_at)
           (re_seq (re_lit CHR ''.'') (re_plus not_space_at))))"

definition emailRegex_test :: "string \<Rightarrow> bool" where
  "emailRegex_test email = emailRegex email"

text \<open>
  The pattern as the specification words it, for comparison with \<^const>\<open>emailRegex\<close>:
  one or more non-space/non-@ characters, @, one or more non-space/non-@ characters, a
  dot, one or more non-space characters.
\<close>

definition spec_email_pattern :: regex where
  "spec_email_pattern =
     re_seq (re_plus not_space_at)
       (re_seq (re_lit CHR ''@'')
         (re_seq (re_plus not_space_at)
           (re_seq (re_lit CHR ''.'') (re_plus (\<lambda>c. \<not> is_space c)))))"

section \<open>Requests, responses and the document store\<close>

type_synonym byte = "8 word"

text \<open>
  The file part of a multipart request as multer hands it over: under memory storage
  \<^verbatim>\<open>req.file.buffer\<close> holds the bytes and \<^verbatim>\<open>req.file.size\<close> is their number.
\<close>

record upload_file =
  originalname :: string
  mimetype :: string
  buffer :: "byte list"

text \<open>
  A field of \<^verbatim>\<open>req.body\<close>. A form field is a string, or it is absent; but a field sent
  twice, a bracketed field name, or a JSON body make it an array, an object, a number, a
  boolean or \<^verbatim>\<open>null\<close>. Of such a value the handler uses two things only: whether it is
  truthy (\<^verbatim>\<open>!name\<close>, \<^verbatim>\<open>mobile ? ... : ...\<close>), kept as the flag of \<open>NonString\<close>, and that
  it has no method \<^verbatim>\<open>trim\<close>.
\<close>

datatype jsval = Undefined | Str string | NonString bool

text \<open>
  \<^verbatim>\<open>req.body\<close> and \<^verbatim>\<open>req.file\<close>. The body parsers of Express 4 (whose route syntax
  \<^verbatim>\<open>app.options("*", ...)\<close> the server uses) always leave a body object.
\<close>

record request =
  body_name :: jsval
  body_email :: jsval
  body_mobile :: jsval
  body_message :: jsval
  req_file :: "upload_file option"

text \<open>
  The values passed to \<^verbatim>\<open>res.json\<close>, before they are written as JSON; an object
  keeps the order of its keys. A regular expression among the origins is kept as the
  fixed text before and after its \<^verbatim>\<open>.*\<close>.
\<close>

datatype json =
    JString string
  | JBool bool
  | JObjectId nat
  | JDate nat
  | JArray "json list"
  | JWildcard string string
  | JUndefined

record response =
  status :: nat
  body :: "(string \<times> json) list"

text \<open>
  An error thrown by the persistence layer, by a middleware or by the handler itself:
  \<^verbatim>\<open>err.name\<close>, \<^verbatim>\<open>err.message\<close> and \<^verbatim>\<open>Object.keys(err.errors)\<close>.
\<close>

record js_error =
  err_name :: string
  err_message :: string
  err_errors :: "string list"

text \<open>
  The collection of the document store. The store is outside the repository. Whether
  it accepts a save, and under which identifier it files the document, is its
  decision, given to the handler as a \<open>save_outcome\<close>. An accepted document is added to
  the collection under that identifier; a rejected save leaves the collection as it
  was and throws the error.
\<close>

record 'd store =
  docs :: "(nat \<times> 'd) list"

datatype save_outcome = Accepted nat | Rejected js_error

definition save :: "save_outcome \<Rightarrow> 'd \<Rightarrow> 'd store \<Rightarrow> (js_error + nat) \<times> 'd store" where
  "save outcome d st =
     (case outcome of
        Accepted i \<Rightarrow> (Inr i, st\<lparr>docs := docs st @ [(i, d)]\<rparr>)
      | Rejected err \<Rightarrow> (Inl err, st))"

definition findById :: "nat \<Rightarrow> 'd store \<Rightarrow> 'd option" where
  "findById i st = map_of (docs st) i"

definition empty_store :: "'d store" where
  "empty_store = \<lparr>docs = []\<rparr>"

text \<open>\<^verbatim>\<open>process.env.NODE_ENV === "development"\<close>\<close>

definition development :: "string option \<Rightarrow> bool" where
  "development node_env = (node_env = Some ''development'')"

section \<open>The validating variant (in-memory uploads)\<close>

text \<open>
  The schema of this variant: \<^verbatim>\<open>name\<close> and \<^verbatim>\<open>email\<close> required strings,
  \<^verbatim>\<open>mobile\<close> and \<^verbatim>\<open>message\<close> strings, \<^verbatim>\<open>resume\<close> the inline file, and
  \<^verbatim>\<open>createdAt\<close> with default \<^verbatim>\<open>Date.now\<close>.
\<close>

record resume_blob =
  data :: "byte list"
  contentType :: string
  originalName :: string

record submission =
  name :: string
  email :: string
  mobile :: string
  message :: string
  resume :: "resume_blob option"
  createdAt :: nat

text \<open>
  What the body parsers and multer make of a request, apart from the one limit the
  source sets. These libraries are outside the repository: they find no fault, or pass
  an error to \<^verbatim>\<open>next\<close> (a text field longer than multer's own field limit, a body
  that is malformed or too large, a file under another field name; a file of exactly
  the size limit, which later versions of multer refuse).
\<close>

datatype parse_verdict = NoFault | Fault js_error

text \<open>\<^verbatim>\<open>limits: { fileSize: 5 * 1024 * 1024 }\<close>\<close>

definition fileSize_limit :: nat where
  "fileSize_limit = 5 * 1024 * 1024"

text \<open>
  The middleware in front of the handler, ending with \<^verbatim>\<open>upload.single("resume")\<close>
  under the limit that the source configures. A fault of the libraries is passed to
  \<^verbatim>\<open>next\<close>; so is a \<^verbatim>\<open>MulterError\<close> for a file longer than the limit; otherwise
  \<^verbatim>\<open>req.file\<close> is the file, or stays undefined when none was sent.
\<close>

definition upload_single :: "parse_verdict \<Rightarrow> upload_file option \<Rightarrow> js_error + upload_file option" where
  "upload_single v f =
     (case v of
        Fault err \<Rightarrow> Inl err
      | NoFault \<Rightarrow>
          (case f of
             None \<Rightarrow> Inr None
           | Some u \<Rightarrow>
               if length (buffer u) > fileSize_limit
               then Inl \<lparr>err_name = ''MulterError'', err_message = ''File too large'',
                         err_errors = []\<rparr>
               else Inr (Some u)))"

text \<open>The error handling middleware \<^verbatim>\<open>app.use((err, req, res, next) => ...)\<close>.\<close>

definition error_middleware :: "string option \<Rightarrow> js_error \<Rightarrow> response" where
  "error_middleware node_env err =
     \<lparr>status = 500,
      body = [(''error'', JString ''Internal server error''),
              (''details'', if development node_env then JString (err_message err) else JUndefined)]\<rparr>"

text \<open>The three validation responses of the handler.\<close>

definition name_required :: response where
  "name_required =
     \<lparr>status = 400,
      body = [(''error'', JString ''Validation failed''),
              (''details'', JString ''Name is required and cannot be empty''),
              (''field'', JString ''name'')]\<rparr>"

definition email_required :: response where
  "email_required =
     \<lparr>status = 400,
      body = [(''error'', JString ''Validation failed''),
              (''details'', JString ''Email is required and cannot be empty''),
              (''field'', JString ''email'')]\<rparr>"

definition email_invalid :: response where
  "email_invalid =
     \<lparr>status = 400,
      body = [(''error'', JString ''Validation failed''),
              (''details'', JString ''Please enter a valid email address''),
              (''field'', JString ''email'')]\<rparr>"

text \<open>The \<^verbatim>\<open>catch (err)\<close> block of the handler.\<close>

definition submit_catch :: "string option \<Rightarrow> js_error \<Rightarrow> response" where
  "submit_catch node_env err =
     (if err_name err = ''ValidationError'' then
        \<lparr>status = 400,
         body = [(''error'', JString ''Database validation failed''),
                 (''details'', JString (err_message err)),
                 (''fields'', JArray (map JString (err_errors err)))]\<rparr>
      else if err_name err = ''MongoError'' \<or> err_name err = ''MongoServerError'' then
        \<lparr>status = 500,
         body = [(''error'', JString ''Database error''),
                 (''details'', JString (if development node_env then err_message err
                                        else ''Database connection issue''))]\<rparr>
      else
        \<lparr>status = 500,
         body = [(''error'', JString ''Server error''),
                 (''details'', JString (if development node_env then err_message err
                                        else ''Internal server error''))]\<rparr>)"

text \<open>Whether a value counts as true in \<^verbatim>\<open>!name\<close> and \<^verbatim>\<open>mobile ? ... : ...\<close>.\<close>

definition truthy :: "jsval \<Rightarrow> bool" where
  "truthy v = (case v of Undefined \<Rightarrow> False | Str s \<Rightarrow> s \<noteq> [] | NonString b \<Rightarrow> b)"

text \<open>
  \<^verbatim>\<open>name.trim()\<close> on a truthy value: a string is trimmed; any other value has no such
  method and the call throws a \<^verbatim>\<open>TypeError\<close>. The handler never calls it on a falsy
  value.
\<close>

definition not_a_function :: "string \<Rightarrow> js_error" where
  "not_a_function field =
     \<lparr>err_name = ''TypeError'', err_message = field @ ''.trim is not a function'',
      err_errors = []\<rparr>"

definition call_trim :: "string \<Rightarrow> jsval \<Rightarrow> js_error + string" where
  "call_trim field v = (case v of Str s \<Rightarrow> Inr (trim s) | _ \<Rightarrow> Inl (not_a_function field))"

text \<open>\<^verbatim>\<open>mobile ? mobile.trim() : ""\<close>\<close>

definition trim_or_empty :: "string \<Rightarrow> jsval \<Rightarrow> js_error + string" where
  "trim_or_empty field v = (if truthy v then call_trim field v else Inr [])"

text \<open>
  \<^verbatim>\<open>submissionData\<close> for a name and an email that passed the checks, with the file
  when there is one, made a document by \<^verbatim>\<open>new Submission(submissionData)\<close>, which
  fills in \<^verbatim>\<open>createdAt\<close>. The fields are evaluated in the order of the source.
\<close>

definition new_Submission :: "nat \<Rightarrow> string \<Rightarrow> string \<Rightarrow> request \<Rightarrow> js_error + submission" where
  "new_Submission now n e req =
     (case trim_or_empty ''mobile'' (body_mobile req) of
        Inl err \<Rightarrow> Inl err
      | Inr mo \<Rightarrow>
          (case trim_or_empty ''message'' (body_message req) of
             Inl err \<Rightarrow> Inl err
           | Inr me \<Rightarrow>
               Inr \<lparr>name = trim n, email = trim e, mobile = mo, message = me,
                    resume = map_option
                      (\<lambda>u. \<lparr>data = buffer u, contentType = mimetype u,
                            originalName = originalname u\<rparr>) (req_file req),
                    createdAt = now\<rparr>))"

text \<open>The response to a saved submission.\<close>

definition created :: "nat \<Rightarrow> response" where
  "created i =
     \<lparr>status = 201,
      body = [(''success'', JBool True),
              (''message'', JString ''Submission saved successfully''),
              (''submissionId'', JObjectId i)]\<rparr>"

text \<open>
  The \<^verbatim>\<open>try\<close> block of the handler of \<^verbatim>\<open>POST /api/submit\<close>; \<open>Inl\<close> is an error
  thrown inside it. The checks \<^verbatim>\<open>!name || name.trim() === ""\<close> and
  \<^verbatim>\<open>!email || email.trim() === ""\<close> come first, in this order, then the pattern on the
  untrimmed \<^verbatim>\<open>email\<close>; then the document is built and saved.
\<close>

definition submit_try ::
  "nat \<Rightarrow> save_outcome \<Rightarrow> request \<Rightarrow> submission store
     \<Rightarrow> js_error + response \<times> submission store" where
  "submit_try now outcome req st =
     (if \<not> truthy (body_name req) then Inr (name_required, st)
      else
        (case body_name req of
           Str n \<Rightarrow>
             if trim n = [] then Inr (name_required, st)
             else if \<not> truthy (body_email req) then Inr (email_required, st)
             else
               (case body_email req of
                  Str e \<Rightarrow>
                    if trim e = [] then Inr (email_required, st)
                    else if \<not> emailRegex_test e then Inr (email_invalid, st)
                    else
                      (case new_Submission now n e req of
                         Inl err \<Rightarrow> Inl err
                       | Inr d \<Rightarrow>
                           (case save outcome d st of
                              (Inr i, st') \<Rightarrow> Inr (created i, st')
                            | (Inl err, st') \<Rightarrow> Inl err))
                | _ \<Rightarrow> Inl (not_a_function ''email''))
         | _ \<Rightarrow> Inl (not_a_function ''name'')))"

text \<open>The handler: the \<^verbatim>\<open>try\<close> block, and the \<^verbatim>\<open>catch\<close> block for what it throws.\<close>

definition submit_handler ::
  "string option \<Rightarrow> nat \<Rightarrow> save_outcome \<Rightarrow> request \<Rightarrow> submission store
     \<Rightarrow> response \<times> submission store" where
  "submit_handler node_env now outcome req st =
     (case submit_try now outcome req st of
        Inr r \<Rightarrow> r
      | Inl err \<Rightarrow> (submit_catch node_env err, st))"

text \<open>
  The route: the middleware first; an error it passes to \<^verbatim>\<open>next\<close> skips the handler
  and reaches the error handling middleware.
\<close>

definition post_api_submit ::
  "string option \<Rightarrow> nat \<Rightarrow> parse_verdict \<Rightarrow> save_outcome \<Rightarrow> request \<Rightarrow> submission store
     \<Rightarrow> response \<times> submission store" where
  "post_api_submit node_env now v outcome req st =
     (case upload_single v (req_file req) of
        Inl err \<Rightarrow> (error_middleware node_env err, st)
      | Inr f \<Rightarrow> submit_handler node_env now outcome (req\<lparr>req_file := f\<rparr>) st)"

text \<open>
  \<^verbatim>\<open>corsOptions.origin\<close>: the configured front end (or its default), two fixed
  origins, and the pattern \<^verbatim>\<open>^https://apply4me-frontend.*\.vercel\.app$\<close>, kept as its
  fixed prefix and suffix.
\<close>

definition corsOptions_origin :: "string option \<Rightarrow> json list" where
  "corsOptions_origin frontend_url =
     [JString (case frontend_url of
                 None \<Rightarrow> ''http://localhost:5173''
               | Some u \<Rightarrow> if u = [] then ''http://localhost:5173'' else u),
      JString ''https://apply4me-frontend.vercel.app'',
      JString ''https://apply4me-frontend-9tjtasn0b-alunixs-projects.vercel.app'',
      JWildcard ''https://apply4me-frontend'' ''.vercel.app'']"

text \<open>
  \<^verbatim>\<open>GET /api/health\<close>; \<^verbatim>\<open>res.json\<close> without \<^verbatim>\<open>res.status\<close> answers 200.
\<close>

definition get_api_health :: "int \<Rightarrow> nat \<Rightarrow> string option \<Rightarrow> response" where
  "get_api_health readyState now frontend_url =
     \<lparr>status = 200,
      body = [(''status'', JString ''healthy''),
              (''database'', JString (if readyState = 1 then ''connected'' else ''disconnected'')),
              (''timestamp'', JDate now),
              (''cors'', JArray (corsOptions_origin frontend_url))]\<rparr>"

section \<open>The disk-storage variants\<close>

text \<open>
  The three other servers share one handler. Their schema has plain string fields, none
  with a default, a \<^verbatim>\<open>resumePath\<close>, and \<^verbatim>\<open>createdAt\<close>. The handler gives the
  fields of the body to the document as they came: a string stays that string, and a
  field that was not sent stays undefined in the document. (What the schema makes of a
  value that is not a string is the library's business; the document keeps the value.)
\<close>

record submission_disk =
  d_name :: jsval
  d_email :: jsval
  d_mobile :: jsval
  d_message :: jsval
  d_resumePath :: string
  d_createdAt :: nat

text \<open>The decimal digit of a number below ten.\<close>

definition digit_char :: "nat \<Rightarrow> char" where
  "digit_char d = ''0123456789'' ! d"

text \<open>The decimal text of a number, as \<^verbatim>\<open>Date.now() + "_"\<close> produces it.\<close>

function show_nat :: "nat \<Rightarrow> string" where
  "show_nat n = (if n < 10 then [digit_char n] else show_nat (n div 10) @ [digit_char (n mod 10)])"
  by pat_completeness auto
termination
  by (relation "measure id") auto

text \<open>
  \<^verbatim>\<open>multer.diskStorage\<close>: the destination \<^verbatim>\<open>uploads/\<close>, the file name
  \<^verbatim>\<open>Date.now() + "_" + file.originalname\<close>, and \<^verbatim>\<open>req.file.path\<close> their join.
\<close>

definition diskStorage_filename :: "nat \<Rightarrow> upload_file \<Rightarrow> string" where
  "diskStorage_filename t u = show_nat t @ ''_'' @ originalname u"

definition diskStorage_path :: "nat \<Rightarrow> upload_file \<Rightarrow> string" where
  "diskStorage_path t u = ''uploads/'' @ diskStorage_filename t u"

text \<open>
  The handler of \<^verbatim>\<open>POST /api/submit\<close> in these variants, for a request that the
  body parsers and multer handed on; \<open>t\<close> is the clock when the file was stored, \<open>now\<close>
  when the document is made.
\<close>

definition submit_handler_disk ::
  "nat \<Rightarrow> nat \<Rightarrow> save_outcome \<Rightarrow> request \<Rightarrow> submission_disk store
     \<Rightarrow> response \<times> submission_disk store" where
  "submit_handler_disk t now outcome req st =
     (let resumePath = (case req_file req of None \<Rightarrow> [] | Some u \<Rightarrow> diskStorage_path t u)
      in case save outcome
                \<lparr>d_name = body_name req, d_email = body_email req, d_mobile = body_mobile req,
                 d_message = body_message req, d_resumePath = resumePath, d_createdAt = now\<rparr>
                st of
           (Inr i, st') \<Rightarrow>
             (\<lparr>status = 201, body = [(''message'', JString ''Submission saved successfully'')]\<rparr>, st')
         | (Inl err, st') \<Rightarrow>
             (\<lparr>status = 500, body = [(''error'', JString ''Server error'')]\<rparr>, st'))"

section \<open>Conditions on a request\<close>

text \<open>
  A field is missing: absent, another falsy value, or a string that is empty after
  trimming white space.
\<close>

definition blank :: "jsval \<Rightarrow> bool" where
  "blank v = (case v of Undefined \<Rightarrow> True | Str s \<Rightarrow> trim s = [] | NonString b \<Rightarrow> \<not> b)"

text \<open>A field is a string.\<close>

definition is_text :: "jsval \<Rightarrow> bool" where
  "is_text v = (case v of Str s \<Rightarrow> True | _ \<Rightarrow> False)"

text \<open>
  An optional field is a string, absent or another falsy value: anything but a truthy
  value that is not a string. Its stored text is then the trimmed string, or the empty
  string.
\<close>

definition trimmable :: "jsval \<Rightarrow> bool" where
  "trimmable v = (v \<noteq> NonString True)"

definition trimmed :: "jsval \<Rightarrow> string" where
  "trimmed v = (case v of Str s \<Rightarrow> trim s | _ \<Rightarrow> [])"

text \<open>
  The document of a request whose name \<open>n\<close> and email \<open>e\<close> passed the checks and whose
  optional fields can be trimmed, made at time \<open>now\<close>.
\<close>

definition document_of :: "nat \<Rightarrow> string \<Rightarrow> string \<Rightarrow> request \<Rightarrow> submission" where
  "document_of now n e req =
     \<lparr>name = trim n, email = trim e, mobile = trimmed (body_mobile req),
      message = trimmed (body_message req),
      resume = (case req_file req of
                  None \<Rightarrow> None
                | Some u \<Rightarrow> Some \<lparr>data = buffer u, contentType = mimetype u,
                                  originalName = originalname u\<rparr>),
      createdAt = now\<rparr>"

text \<open>The request carries no file, or one that does not exceed the size limit.\<close>

definition upload_within_limit :: "request \<Rightarrow> bool" where
  "upload_within_limit req =
     (case req_file req of None \<Rightarrow> True | Some u \<Rightarrow> length (buffer u) \<le> fileSize_limit)"

text \<open>The value of a key in a response body.\<close>

definition body_field :: "response \<Rightarrow> string \<Rightarrow> json option" where
  "body_field r k = map_of (body r) k"

section \<open>Concrete requests\<close>

text \<open>
  The scenario of the specification (Jane Doe, no file), a file one byte over the
  limit, a connectivity error of the store, and multer's error for a text field over
  its own field limit.
\<close>

definition jane :: request where
  "jane = \<lparr>body_name = Str ''Jane Doe'', body_email = Str ''jane@example.com'',
            body_mobile = Undefined, body_message = Undefined, req_file = None\<rparr>"

definition big_file :: upload_file where
  "big_file = \<lparr>originalname = ''cv.pdf'', mimetype = ''application/pdf'',
                buffer = replicate 5242881 0\<rparr>"

definition network_error :: js_error where
  "network_error = \<lparr>err_name = ''MongoNetworkError'', err_message = ''connect ECONNREFUSED'',
                     err_errors = []\<rparr>"

definition field_too_long :: js_error where
  "field_too_long = \<lparr>err_name = ''MulterError'', err_message = ''Field value too long'',
                      err_errors = []\<rparr>"

text \<open>A request with white space around its fields and a small file.\<close>

definition small_file :: upload_file where
  "small_file = \<lparr>originalname = ''cv.pdf'', mimetype = ''application/pdf'',
                  buffer = [37, 80, 68, 70]\<rparr>"

definition padded :: request where
  "padded = \<lparr>body_name = Str '' Jane Doe '', body_email = Str ''jane@example.com'',
              body_mobile = Str '' 555 0100'', body_message = Undefined,
              req_file = Some small_file\<rparr>"

section \<open>Auxiliary facts\<close>

subsection \<open>The pattern\<close>

text \<open>Concatenation is the existence of a cut; the pattern is the shape of an address.\<close>

lemma set_splits: "set (splits s) = {(a, b). a @ b = s}"
proof (rule set_eqI)
  fix x :: "string \<times> string"
  obtain a b where x: "x = (a, b)" by (cases x)
  have "(a, b) \<in> set (splits s) \<longleftrightarrow> a @ b = s"
  proof
    assume "(a, b) \<in> set (splits s)"
    then show "a @ b = s"
      by (auto simp: splits_def)
  next
    assume ab: "a @ b = s"
    then have eq: "(a, b) = (\<lambda>i. (take i s, drop i s)) (length a)"
      by auto
    from ab have "length a \<le> length s"
      by auto
    then have "length a \<in> {0..<Suc (length s)}"
      by simp
    then have "length a \<in> set [0..<Suc (length s)]"
      by (simp only: set_upt)
    with eq show "(a, b) \<in> set (splits s)"
      unfolding splits_def set_map by (rule image_eqI)
  qed
  then show "x \<in> set (splits s) \<longleftrightarrow> x \<in> {(a, b). a @ b = s}"
    by (simp add: x)
qed

lemma re_seq_iff: "re_seq p q s \<longleftrightarrow> (\<exists>a b. s = a @ b \<and> p a \<and> q b)"
  by (auto simp: re_seq_def list_ex_iff set_splits)

lemma re_seq_lit: "re_seq (re_lit c) q s \<longleftrightarrow> (\<exists>b. s = c # b \<and> q b)"
  by (auto simp: re_seq_iff re_lit_def)

lemma re_lit_seq_tail:
  "re_seq p (re_seq (re_lit c) q) s \<longleftrightarrow> (\<exists>a b. s = a @ c # b \<and> p a \<and> q b)"
  by (auto simp: re_seq_iff[of p] re_seq_lit)

lemma emailRegex_iff:
  "emailRegex_test s \<longleftrightarrow>
     (\<exists>l d t. s = l @ CHR ''@'' # d @ CHR ''.'' # t
        \<and> re_plus not_space_at l \<and> re_plus not_space_at d \<and> re_plus not_space_at t)"
  unfolding emailRegex_test_def emailRegex_def re_lit_seq_tail by auto

lemma spec_email_pattern_iff:
  "spec_email_pattern s \<longleftrightarrow>
     (\<exists>l d t. s = l @ CHR ''@'' # d @ CHR ''.'' # t
        \<and> re_plus not_space_at l \<and> re_plus not_space_at d \<and> re_plus (\<lambda>c. \<not> is_space c) t)"
  unfolding spec_email_pattern_def re_lit_seq_tail by auto

lemma is_space_dot: "\<not> is_space CHR ''.''"
  by (simp add: is_space_def)

lemma is_space_at: "\<not> is_space CHR ''@''"
  by (simp add: is_space_def)

lemma emailRegex_no_space:
  assumes "emailRegex_test s" "c \<in> set s"
  shows "\<not> is_space c"
proof -
  from assms(1) obtain l d t where s: "s = l @ CHR ''@'' # d @ CHR ''.'' # t"
    and l: "re_plus not_space_at l" and d: "re_plus not_space_at d" and t: "re_plus not_space_at t"
    unfolding emailRegex_iff by blast
  have ns: "\<And>x. re_plus not_space_at x \<Longrightarrow> \<forall>c \<in> set x. \<not> is_space c"
    by (simp add: re_plus_def list_all_iff not_space_at_def)
  from assms(2) s have "c \<in> set l \<or> c = CHR ''@'' \<or> c \<in> set d \<or> c = CHR ''.'' \<or> c \<in> set t"
    by auto
  with ns[OF l] ns[OF d] ns[OF t] show ?thesis
    using is_space_dot is_space_at by blast
qed

lemma emailRegex_one_at:
  assumes "emailRegex_test s"
  shows "length (filter (\<lambda>c. c = CHR ''@'') s) = 1"
proof -
  from assms(1) obtain l d t where s: "s = l @ CHR ''@'' # d @ CHR ''.'' # t"
    and l: "re_plus not_space_at l" and d: "re_plus not_space_at d" and t: "re_plus not_space_at t"
    unfolding emailRegex_iff by blast
  have "\<And>x. re_plus not_space_at x \<Longrightarrow> filter (\<lambda>c. c = CHR ''@'') x = []"
    by (simp add: re_plus_def list_all_iff not_space_at_def filter_empty_conv)
  with l d t show ?thesis
    by (simp add: s)
qed

lemma emailRegex_nonempty: "emailRegex_test s \<Longrightarrow> s \<noteq> []"
  unfolding emailRegex_iff by blast

lemma emailRegex_imp_spec:
  assumes "emailRegex_test s"
  shows "spec_email_pattern s"
proof -
  from assms(1) obtain l d t where s: "s = l @ CHR ''@'' # d @ CHR ''.'' # t"
    and l: "re_plus not_space_at l" and d: "re_plus not_space_at d" and t: "re_plus not_space_at t"
    unfolding emailRegex_iff by blast
  from t have "re_plus (\<lambda>c. \<not> is_space c) t"
    by (simp add: re_plus_def list_all_iff not_space_at_def)
  with s l d show ?thesis
    unfolding spec_email_pattern_iff by blast
qed

subsection \<open>Trimming\<close>

lemma trim_Nil: "trim [] = []"
  by (simp add: trim_def)

lemma all_dropWhile: "(\<forall>x \<in> set (dropWhile P xs). P x) \<longleftrightarrow> (\<forall>x \<in> set xs. P x)"
  by (induction xs) auto

lemma trim_eq_Nil_iff: "trim s = [] \<longleftrightarrow> (\<forall>c \<in> set s. is_space c)"
  by (simp add: trim_def all_dropWhile)

lemma trim_pad:
  assumes l: "\<forall>c \<in> set l. is_space c" and r: "\<forall>c \<in> set r. is_space c"
  shows "trim (l @ s @ r) = trim s"
proof (cases "\<forall>c \<in> set s. is_space c")
  case True
  with l r have "\<forall>c \<in> set (l @ s @ r). is_space c"
    by auto
  then have "trim (l @ s @ r) = []"
    by (simp only: trim_eq_Nil_iff)
  moreover from True have "trim s = []"
    by (simp only: trim_eq_Nil_iff)
  ultimately show ?thesis
    by simp
next
  case False
  have "dropWhile is_space (l @ s @ r) = dropWhile is_space (s @ r)"
    using l by (simp add: dropWhile_append)
  also have "\<dots> = dropWhile is_space s @ r"
    using False by (auto simp: dropWhile_append)
  finally have "trim (l @ s @ r)
      = rev (dropWhile is_space (rev r @ rev (dropWhile is_space s)))"
    by (simp add: trim_def)
  also have "\<dots> = rev (dropWhile is_space (rev (dropWhile is_space s)))"
    using r by (simp add: dropWhile_append)
  finally show ?thesis
    by (simp add: trim_def)
qed

lemma trim_keeps:
  assumes "s \<noteq> []" "\<not> is_space (hd s)" "\<not> is_space (last s)"
  shows "trim s = s"
proof -
  from assms have a: "dropWhile is_space s = s"
    by (cases s) auto
  from assms have "dropWhile is_space (rev s) = rev s"
    by (cases s rule: rev_cases) auto
  with a show ?thesis
    by (simp add: trim_def)
qed

lemma emailRegex_trim: "emailRegex_test e \<Longrightarrow> trim e = e"
proof -
  assume e: "emailRegex_test e"
  then have ne: "e \<noteq> []"
    by (rule emailRegex_nonempty)
  then have "hd e \<in> set e" "last e \<in> set e"
    by simp_all
  then have "\<not> is_space (hd e)" "\<not> is_space (last e)"
    using e emailRegex_no_space by blast+
  with ne show "trim e = e"
    by (rule trim_keeps)
qed

subsection \<open>The handler, case by case\<close>

lemma upload_single_within:
  "upload_within_limit req \<Longrightarrow> upload_single NoFault (req_file req) = Inr (req_file req)"
  by (cases "req_file req") (simp_all add: upload_within_limit_def upload_single_def)

lemma post_api_submit_within:
  "upload_within_limit req \<Longrightarrow>
     post_api_submit node_env now NoFault outcome req st
       = submit_handler node_env now outcome req st"
  by (simp add: post_api_submit_def upload_single_within)

lemma post_api_submit_fault:
  "post_api_submit node_env now (Fault err) outcome req st = (error_middleware node_env err, st)"
  by (simp add: post_api_submit_def upload_single_def)

lemma trim_or_empty_trimmable: "trimmable v \<Longrightarrow> trim_or_empty field v = Inr (trimmed v)"
  by (cases v) (auto simp: trimmable_def trim_or_empty_def truthy_def call_trim_def trimmed_def trim_Nil)

lemma new_Submission_trimmable:
  assumes "trimmable (body_mobile req)" and "trimmable (body_message req)"
  shows "new_Submission now n e req = Inr (document_of now n e req)"
  using assms
  by (cases "req_file req")
     (simp_all add: new_Submission_def trim_or_empty_trimmable document_of_def)

lemma submit_try_checked:
  assumes "body_name req = Str n" and "trim n \<noteq> []"
    and "body_email req = Str e" and "emailRegex_test e"
  shows "submit_try now outcome req st =
           (case new_Submission now n e req of
              Inl err \<Rightarrow> Inl err
            | Inr d \<Rightarrow>
                (case save outcome d st of
                   (Inr i, st') \<Rightarrow> Inr (created i, st')
                 | (Inl err, st') \<Rightarrow> Inl err))"
proof -
  from assms(2) have "n \<noteq> []"
    using trim_Nil by auto
  moreover from assms(4) have "e \<noteq> []" "trim e \<noteq> []"
    by (simp_all add: emailRegex_nonempty emailRegex_trim)
  ultimately show ?thesis
    using assms by (simp add: submit_try_def truthy_def)
qed

lemma submit_handler_valid:
  assumes "body_name req = Str n" and "trim n \<noteq> []"
    and "body_email req = Str e" and "emailRegex_test e"
    and "trimmable (body_mobile req)" and "trimmable (body_message req)"
  shows "submit_handler node_env now outcome req st =
           (case outcome of
              Accepted i \<Rightarrow>
                (created i, st\<lparr>docs := docs st @ [(i, document_of now n e req)]\<rparr>)
            | Rejected err \<Rightarrow> (submit_catch node_env err, st))"
  using assms(5,6)
  by (cases outcome)
     (simp_all add: submit_handler_def submit_try_checked [OF assms(1-4)]
        new_Submission_trimmable save_def)

lemma post_api_submit_valid:
  assumes "upload_within_limit req"
    and "body_name req = Str n" and "trim n \<noteq> []"
    and "body_email req = Str e" and "emailRegex_test e"
    and "trimmable (body_mobile req)" and "trimmable (body_message req)"
  shows "post_api_submit node_env now NoFault outcome req st =
           (case outcome of
              Accepted i \<Rightarrow>
                (created i, st\<lparr>docs := docs st @ [(i, document_of now n e req)]\<rparr>)
            | Rejected err \<Rightarrow> (submit_catch node_env err, st))"
  using assms by (simp add: post_api_submit_within submit_handler_valid)

lemma submit_handler_blank_name:
  "blank (body_name req) \<Longrightarrow> submit_handler node_env now outcome req st = (name_required, st)"
  by (cases "body_name req")
     (auto simp: submit_handler_def submit_try_def blank_def truthy_def)

lemma submit_handler_blank_email:
  assumes "is_text (body_name req)" and "\<not> blank (body_name req)" and "blank (body_email req)"
  shows "submit_handler node_env now outcome req st = (email_required, st)"
proof -
  from assms(1,2) obtain n where n: "body_name req = Str n" "trim n \<noteq> []"
    by (cases "body_name req") (auto simp: is_text_def blank_def)
  then have "n \<noteq> []"
    using trim_Nil by auto
  with n assms(3) show ?thesis
    by (cases "body_email req")
       (auto simp: submit_handler_def submit_try_def blank_def truthy_def)
qed

lemma submit_handler_bad_email:
  assumes "body_name req = Str n" and "trim n \<noteq> []" and "body_email req = Str e"
    and "\<not> emailRegex_test e"
  shows "submit_handler node_env now outcome req st =
           (if trim e = [] then email_required else email_invalid, st)"
proof -
  from assms(2) have "n \<noteq> []"
    using trim_Nil by auto
  with assms show ?thesis
    by (auto simp: submit_handler_def submit_try_def truthy_def trim_Nil)
qed

lemma submit_handler_not_text:
  "body_name req = NonString True \<Longrightarrow>
     submit_handler node_env now outcome req st
       = (submit_catch node_env (not_a_function ''name''), st)"
  by (simp add: submit_handler_def submit_try_def truthy_def)

lemma submit_handler_email_not_text:
  assumes "body_name req = Str n" and "trim n \<noteq> []" and "body_email req = NonString True"
  shows "submit_handler node_env now outcome req st
           = (submit_catch node_env (not_a_function ''email''), st)"
proof -
  from assms(2) have "n \<noteq> []"
    using trim_Nil by auto
  with assms show ?thesis
    by (simp add: submit_handler_def submit_try_def truthy_def)
qed

lemma type_error_response:
  "submit_catch None (not_a_function field) =
     \<lparr>status = 500,
      body = [(''error'', JString ''Server error''),
              (''details'', JString ''Internal server error'')]\<rparr>"
  by (simp add: submit_catch_def not_a_function_def development_def)

text \<open>The concrete requests.\<close>

lemma email_jane: "emailRegex_test ''jane@example.com''"
  unfolding emailRegex_iff
  by (rule exI[of _ "''jane''"], rule exI[of _ "''example''"], rule exI[of _ "''com''"])
     (simp add: re_plus_def not_space_at_def is_space_def)

lemma trim_jane: "trim ''Jane Doe'' = ''Jane Doe''"
  by (simp add: trim_def is_space_def)

lemma jane_valid:
  "upload_within_limit jane" "body_name jane = Str ''Jane Doe''" "trim ''Jane Doe'' \<noteq> []"
  "body_email jane = Str ''jane@example.com''"
  by (simp_all add: jane_def upload_within_limit_def trim_jane)

lemma jane_trimmable: "trimmable (body_mobile jane)" "trimmable (body_message jane)"
  by (simp_all add: jane_def trimmable_def)

lemma padded_valid:
  "upload_within_limit padded" "body_name padded = Str '' Jane Doe ''"
  "trim '' Jane Doe '' \<noteq> []" "body_email padded = Str ''jane@example.com''"
  by (simp_all add: padded_def small_file_def upload_within_limit_def fileSize_limit_def
        trim_def is_space_def)

lemma padded_trimmable: "trimmable (body_mobile padded)" "trimmable (body_message padded)"
  by (simp_all add: padded_def trimmable_def)

lemma big_file_over: "upload_single NoFault (Some big_file) =
   Inl \<lparr>err_name = ''MulterError'', err_message = ''File too large'', err_errors = []\<rparr>"
  by (simp add: upload_single_def big_file_def fileSize_limit_def)

lemma spec_pattern_two_ats: "spec_email_pattern ''a@b.c@d''"
  unfolding spec_email_pattern_iff
  by (rule exI[of _ "''a''"], rule exI[of _ "''b''"], rule exI[of _ "''c@d''"])
     (simp add: re_plus_def not_space_at_def is_space_def)

lemma email_two_ats: "\<not> emailRegex_test ''a@b.c@d''"
  using emailRegex_one_at [of "''a@b.c@d''"] by auto

lemma email_no_at: "\<not> emailRegex_test ''not-an-email''"
  using emailRegex_one_at [of "''not-an-email''"] by auto

lemma spec_pattern_has_at: "spec_email_pattern s \<Longrightarrow> CHR ''@'' \<in> set s"
  unfolding spec_email_pattern_iff by auto

lemma spec_pattern_no_at: "\<not> spec_email_pattern ''not-an-email''"
  using spec_pattern_has_at [of "''not-an-email''"] by auto

lemma emailRegex_shape:
  "emailRegex_test e \<longleftrightarrow>
     (\<exists>l d t. e = l @ ''@'' @ d @ ''.'' @ t \<and> l \<noteq> [] \<and> d \<noteq> [] \<and> t \<noteq> []
        \<and> (\<forall>c \<in> set (l @ d @ t). \<not> is_space c \<and> c \<noteq> CHR ''@''))"
proof -
  have "\<And>l d t. (re_plus not_space_at l \<and> re_plus not_space_at d \<and> re_plus not_space_at t)
      \<longleftrightarrow> (l \<noteq> [] \<and> d \<noteq> [] \<and> t \<noteq> []
            \<and> (\<forall>c \<in> set (l @ d @ t). \<not> is_space c \<and> c \<noteq> CHR ''@''))"
    by (auto simp: re_plus_def list_all_iff not_space_at_def)
  then show ?thesis
    unfolding emailRegex_iff by simp
qed

subsection \<open>The store\<close>

lemma map_of_fresh:
  "map_of xs i = None \<Longrightarrow> map_of (xs @ [(i, d)]) i = Some d"
  by (simp add: map_add_def)

text \<open>
  Only a request that the parsers hand on, that passes every check and whose optional
  fields can be trimmed reaches the save: any other leaves the store as it was.
\<close>

lemma trim_or_empty_Inr: "trim_or_empty field v = Inr x \<Longrightarrow> trimmable v"
  by (cases v) (auto simp: trim_or_empty_def truthy_def call_trim_def trimmable_def)

lemma new_Submission_Inr:
  "new_Submission now n e req = Inr d \<Longrightarrow>
     trimmable (body_mobile req) \<and> trimmable (body_message req)"
  by (auto simp: new_Submission_def split: sum.splits dest: trim_or_empty_Inr)

lemma save_changed: "snd (save outcome d st) \<noteq> st \<Longrightarrow> \<exists>i. outcome = Accepted i"
  by (cases outcome) (simp_all add: save_def)

lemma submit_try_changed:
  assumes "submit_try now outcome req st = Inr (r, st')" and "st' \<noteq> st"
  shows "(\<exists>n e. body_name req = Str n \<and> trim n \<noteq> [] \<and> body_email req = Str e
            \<and> emailRegex_test e)
     \<and> trimmable (body_mobile req) \<and> trimmable (body_message req)
     \<and> (\<exists>i. outcome = Accepted i)"
proof (cases "body_name req")
  case Undefined
  with assms show ?thesis
    by (simp add: submit_try_def truthy_def)
next
  case (NonString b)
  with assms show ?thesis
    by (simp add: submit_try_def truthy_def split: if_splits)
next
  case n: (Str n)
  show ?thesis
  proof (cases "body_email req")
    case Undefined
    with n assms show ?thesis
      by (simp add: submit_try_def truthy_def split: if_splits)
  next
    case (NonString b)
    with n assms show ?thesis
      by (simp add: submit_try_def truthy_def split: if_splits)
  next
    case e: (Str e)
    from n e assms have checks: "trim n \<noteq> []" "emailRegex_test e"
      by (auto simp: submit_try_def truthy_def split: if_splits)
    with n e assms(1) have run: "(case new_Submission now n e req of
              Inl err \<Rightarrow> Inl err
            | Inr d \<Rightarrow>
                (case save outcome d st of
                   (Inr i, st') \<Rightarrow> Inr (created i, st')
                 | (Inl err, st') \<Rightarrow> Inl err)) = Inr (r, st')"
      by (simp add: submit_try_checked)
    then obtain d where d: "new_Submission now n e req = Inr d"
      by (cases "new_Submission now n e req") auto
    with run have "snd (save outcome d st) = st'"
      by (auto split: prod.splits sum.splits)
    with assms(2) have "snd (save outcome d st) \<noteq> st"
      by simp
    then have "\<exists>i. outcome = Accepted i"
      by (rule save_changed)
    with n e checks new_Submission_Inr [OF d] show ?thesis
      by simp
  qed
qed

lemma store_changed_reaches_save:
  assumes "snd (post_api_submit node_env now v outcome req st) \<noteq> st"
  shows "v = NoFault \<and> upload_within_limit req
     \<and> (\<exists>n e. body_name req = Str n \<and> trim n \<noteq> [] \<and> body_email req = Str e
            \<and> emailRegex_test e)
     \<and> trimmable (body_mobile req) \<and> trimmable (body_message req)
     \<and> (\<exists>i. outcome = Accepted i)"
proof -
  from assms have v: "v = NoFault"
    by (cases v) (simp_all add: post_api_submit_fault)
  have w: "upload_within_limit req"
  proof (rule ccontr)
    assume "\<not> upload_within_limit req"
    then obtain u where "req_file req = Some u" "length (buffer u) > fileSize_limit"
      by (cases "req_file req") (auto simp: upload_within_limit_def)
    with v assms show False
      by (simp add: post_api_submit_def upload_single_def)
  qed
  with v assms have "snd (submit_handler node_env now outcome req st) \<noteq> st"
    by (simp add: post_api_submit_within)
  then obtain r st' where "submit_try now outcome req st = Inr (r, st')" "st' \<noteq> st"
    by (cases "submit_try now outcome req st") (auto simp: submit_handler_def)
  from submit_try_changed [OF this] v w show ?thesis
    by simp
qed

section \<open>Missing name or email\<close>

text \<open>
  C1, as amended. In the validating variant, take a request that the body parsers and
  the upload middleware hand on to the handler, its file, if any, within the size limit.
  If its name is absent, falsy or empty after trimming, or its name is a string and its
  email is absent, falsy or empty after trimming, the answer is 400 with a body
  \<open>error\<close>, \<open>details\<close>, \<open>field\<close> that names the field (the name when the name is
  missing, the email otherwise), and the store is left as it was.
\<close>

theorem missing_field_rejected:
  assumes "v = NoFault" and "upload_within_limit req"
    and "blank (body_name req) \<or> (is_text (body_name req) \<and> blank (body_email req))"
  shows "snd (post_api_submit node_env now v outcome req st) = st
     \<and> status (fst (post_api_submit node_env now v outcome req st)) = 400
     \<and> body_field (fst (post_api_submit node_env now v outcome req st)) ''field''
         = Some (JString (if blank (body_name req) then ''name'' else ''email''))
     \<and> map fst (body (fst (post_api_submit node_env now v outcome req st)))
         = [''error'', ''details'', ''field'']"
proof (cases "blank (body_name req)")
  case True
  with assms(1,2) have "post_api_submit node_env now v outcome req st = (name_required, st)"
    by (simp add: post_api_submit_within submit_handler_blank_name)
  with True show ?thesis
    by (simp add: name_required_def body_field_def)
next
  case False
  with assms have "post_api_submit node_env now v outcome req st = (email_required, st)"
    by (simp add: post_api_submit_within submit_handler_blank_email)
  with False show ?thesis
    by (simp add: email_required_def body_field_def)
qed

text \<open>
  A name of two spaces with a well-formed email; then a good name and no email.
\<close>

theorem missing_field_rejected_witness:
  "upload_within_limit (jane\<lparr>body_name := Str ''  ''\<rparr>)
   \<and> blank (body_name (jane\<lparr>body_name := Str ''  ''\<rparr>))
   \<and> post_api_submit None 7 NoFault (Accepted 0) (jane\<lparr>body_name := Str ''  ''\<rparr>) empty_store
       = (name_required, empty_store)
   \<and> body_field name_required ''field'' = Some (JString ''name'')
   \<and> is_text (body_name (jane\<lparr>body_email := Undefined\<rparr>))
   \<and> blank (body_email (jane\<lparr>body_email := Undefined\<rparr>))
   \<and> post_api_submit None 7 NoFault (Accepted 0) (jane\<lparr>body_email := Undefined\<rparr>) empty_store
       = (email_required, empty_store)
   \<and> body_field email_required ''field'' = Some (JString ''email'')"
proof -
  have w1: "upload_within_limit (jane\<lparr>body_name := Str ''  ''\<rparr>)"
    by (simp add: jane_def upload_within_limit_def)
  have b: "blank (body_name (jane\<lparr>body_name := Str ''  ''\<rparr>))"
    by (simp add: blank_def trim_def is_space_def)
  have n: "post_api_submit None 7 NoFault (Accepted 0) (jane\<lparr>body_name := Str ''  ''\<rparr>) empty_store
       = (name_required, empty_store)"
    using w1 b by (simp add: post_api_submit_within submit_handler_blank_name)
  have w2: "upload_within_limit (jane\<lparr>body_email := Undefined\<rparr>)"
    by (simp add: jane_def upload_within_limit_def)
  have c: "is_text (body_name (jane\<lparr>body_email := Undefined\<rparr>))"
    "\<not> blank (body_name (jane\<lparr>body_email := Undefined\<rparr>))"
    "blank (body_email (jane\<lparr>body_email := Undefined\<rparr>))"
    by (simp_all add: jane_def blank_def is_text_def trim_jane)
  then have e: "post_api_submit None 7 NoFault (Accepted 0) (jane\<lparr>body_email := Undefined\<rparr>)
       empty_store = (email_required, empty_store)"
    using w2 by (simp add: post_api_submit_within submit_handler_blank_email)
  from w1 b n c e show ?thesis
    using missing_field_rejected [OF refl w1, of None 7 "Accepted 0" empty_store]
      missing_field_rejected [OF refl w2, of None 7 "Accepted 0" empty_store]
    by (simp add: name_required_def email_required_def body_field_def)
qed

text \<open>
  C1 as stated fails. The disk-storage handler has no validation, so a request
  without a name is saved and answered with 201. In the validating variant a request
  without a name is answered with 500 when its file is over the limit or when multer
  refuses it for a text field that is too long; and a request without an email whose
  name is an array is answered with 500, since \<^verbatim>\<open>name.trim\<close> throws.
\<close>

theorem missing_field_counterexample:
  "submit_handler_disk 3 7 (Accepted 0) (jane\<lparr>body_name := Undefined\<rparr>) empty_store
     = (\<lparr>status = 201, body = [(''message'', JString ''Submission saved successfully'')]\<rparr>,
        \<lparr>docs = [(0, \<lparr>d_name = Undefined, d_email = Str ''jane@example.com'',
                       d_mobile = Undefined, d_message = Undefined, d_resumePath = [],
                       d_createdAt = 7\<rparr>)]\<rparr>)
   \<and> blank (body_name (jane\<lparr>body_name := Undefined, req_file := Some big_file\<rparr>))
   \<and> status (fst (post_api_submit None 7 NoFault (Accepted 0)
         (jane\<lparr>body_name := Undefined, req_file := Some big_file\<rparr>) empty_store)) = 500
   \<and> status (fst (post_api_submit None 7 (Fault field_too_long) (Accepted 0)
         (jane\<lparr>body_name := Undefined\<rparr>) empty_store)) = 500
   \<and> blank (body_email (jane\<lparr>body_name := NonString True, body_email := Undefined\<rparr>))
   \<and> post_api_submit None 7 NoFault (Accepted 0)
         (jane\<lparr>body_name := NonString True, body_email := Undefined\<rparr>) empty_store
       = (\<lparr>status = 500,
           body = [(''error'', JString ''Server error''),
                   (''details'', JString ''Internal server error'')]\<rparr>, empty_store)"
proof -
  have d: "submit_handler_disk 3 7 (Accepted 0) (jane\<lparr>body_name := Undefined\<rparr>) empty_store
     = (\<lparr>status = 201, body = [(''message'', JString ''Submission saved successfully'')]\<rparr>,
        \<lparr>docs = [(0, \<lparr>d_name = Undefined, d_email = Str ''jane@example.com'',
                       d_mobile = Undefined, d_message = Undefined, d_resumePath = [],
                       d_createdAt = 7\<rparr>)]\<rparr>)"
    by (simp add: submit_handler_disk_def save_def empty_store_def jane_def)
  have b: "blank (body_name (jane\<lparr>body_name := Undefined, req_file := Some big_file\<rparr>))"
    "blank (body_email (jane\<lparr>body_name := NonString True, body_email := Undefined\<rparr>))"
    by (simp_all add: blank_def)
  have o: "status (fst (post_api_submit None 7 NoFault (Accepted 0)
         (jane\<lparr>body_name := Undefined, req_file := Some big_file\<rparr>) empty_store)) = 500"
    by (simp add: post_api_submit_def big_file_over error_middleware_def)
  have f: "status (fst (post_api_submit None 7 (Fault field_too_long) (Accepted 0)
         (jane\<lparr>body_name := Undefined\<rparr>) empty_store)) = 500"
    by (simp add: post_api_submit_fault error_middleware_def)
  have "upload_within_limit (jane\<lparr>body_name := NonString True, body_email := Undefined\<rparr>)"
    by (simp add: jane_def upload_within_limit_def)
  then have "post_api_submit None 7 NoFault (Accepted 0)
         (jane\<lparr>body_name := NonString True, body_email := Undefined\<rparr>) empty_store
       = (submit_catch None (not_a_function ''name''), empty_store)"
    by (simp add: post_api_submit_within submit_handler_not_text)
  then have t: "post_api_submit None 7 NoFault (Accepted 0)
         (jane\<lparr>body_name := NonString True, body_email := Undefined\<rparr>) empty_store
       = (\<lparr>status = 500,
           body = [(''error'', JString ''Server error''),
                   (''details'', JString ''Internal server error'')]\<rparr>, empty_store)"
    by (simp only: type_error_response)
  from d b o f t show ?thesis
    by (intro conjI)
qed

section \<open>Accepted submissions\<close>

text \<open>
  C2, as amended. In the validating variant, a request that the body parsers and the
  upload middleware hand on to the handler (its file within the size limit), that passes
  the validation, whose mobile and message are each a string, absent or falsy, and whose
  save the store accepts, adds exactly one document to the collection and is answered
  with 201 and the body \<open>success\<close>, \<open>message\<close> and \<open>submissionId\<close>, the identifier of
  the new document.
\<close>

theorem valid_submission_created:
  assumes "v = NoFault" and "upload_within_limit req"
    and "body_name req = Str n" and "trim n \<noteq> []"
    and "body_email req = Str e" and "emailRegex_test e"
    and "trimmable (body_mobile req)" and "trimmable (body_message req)"
  shows "post_api_submit node_env now v (Accepted i) req st =
           (\<lparr>status = 201,
             body = [(''success'', JBool True),
                     (''message'', JString ''Submission saved successfully''),
                     (''submissionId'', JObjectId i)]\<rparr>,
            st\<lparr>docs := docs st @
                   [(i, \<lparr>name = trim n, email = trim e,
                         mobile = (case body_mobile req of Str m \<Rightarrow> trim m | _ \<Rightarrow> []),
                         message = (case body_message req of Str m \<Rightarrow> trim m | _ \<Rightarrow> []),
                         resume = (case req_file req of
                                     None \<Rightarrow> None
                                   | Some u \<Rightarrow> Some \<lparr>data = buffer u, contentType = mimetype u,
                                                     originalName = originalname u\<rparr>),
                         createdAt = now\<rparr>)]\<rparr>)
     \<and> length (docs (snd (post_api_submit node_env now v (Accepted i) req st)))
         = Suc (length (docs st))"
  using assms by (simp add: post_api_submit_valid created_def document_of_def trimmed_def)

text \<open>The scenario of the specification: Jane Doe, no file, on an empty store.\<close>

theorem valid_submission_created_witness:
  "post_api_submit None 7 NoFault (Accepted 0) jane empty_store =
     (\<lparr>status = 201,
       body = [(''success'', JBool True),
               (''message'', JString ''Submission saved successfully''),
               (''submissionId'', JObjectId 0)]\<rparr>,
      \<lparr>docs = [(0, \<lparr>name = ''Jane Doe'', email = ''jane@example.com'', mobile = [], message = [],
                     resume = None, createdAt = 7\<rparr>)]\<rparr>)"
  using valid_submission_created [OF refl jane_valid email_jane jane_trimmable, of None 7 0 empty_store]
  by (simp add: empty_store_def trim_jane emailRegex_trim [OF email_jane] jane_def)

text \<open>
  C2 as stated fails. The disk-storage handler answers the same request with a body
  that holds the message only, no success flag and no identifier. In the validating
  variant a request that passes validation is answered with 500, and nothing is stored,
  when the store rejects the save, when its mobile field is an array, and when multer
  refuses it for a text field that is too long.
\<close>

theorem valid_submission_counterexample:
  "submit_handler_disk 3 7 (Accepted 0) jane empty_store
     = (\<lparr>status = 201, body = [(''message'', JString ''Submission saved successfully'')]\<rparr>,
        \<lparr>docs = [(0, \<lparr>d_name = Str ''Jane Doe'', d_email = Str ''jane@example.com'',
                       d_mobile = Undefined, d_message = Undefined, d_resumePath = [],
                       d_createdAt = 7\<rparr>)]\<rparr>)
   \<and> post_api_submit None 7 NoFault (Rejected network_error) jane empty_store
     = (\<lparr>status = 500,
         body = [(''error'', JString ''Server error''),
                 (''details'', JString ''Internal server error'')]\<rparr>,
        empty_store)
   \<and> post_api_submit None 7 NoFault (Accepted 0) (jane\<lparr>body_mobile := NonString True\<rparr>)
        empty_store
     = (\<lparr>status = 500,
         body = [(''error'', JString ''Server error''),
                 (''details'', JString ''Internal server error'')]\<rparr>,
        empty_store)
   \<and> post_api_submit None 7 (Fault field_too_long) (Accepted 0) jane empty_store
     = (\<lparr>status = 500,
         body = [(''error'', JString ''Internal server error''), (''details'', JUndefined)]\<rparr>,
        empty_store)"
proof -
  have d: "submit_handler_disk 3 7 (Accepted 0) jane empty_store
     = (\<lparr>status = 201, body = [(''message'', JString ''Submission saved successfully'')]\<rparr>,
        \<lparr>docs = [(0, \<lparr>d_name = Str ''Jane Doe'', d_email = Str ''jane@example.com'',
                       d_mobile = Undefined, d_message = Undefined, d_resumePath = [],
                       d_createdAt = 7\<rparr>)]\<rparr>)"
    by (simp add: submit_handler_disk_def save_def empty_store_def jane_def)
  have "post_api_submit None 7 NoFault (Rejected network_error) jane empty_store
      = (submit_catch None network_error, empty_store)"
    using jane_valid email_jane jane_trimmable by (simp add: post_api_submit_valid)
  then have a: "post_api_submit None 7 NoFault (Rejected network_error) jane empty_store
     = (\<lparr>status = 500,
         body = [(''error'', JString ''Server error''),
                 (''details'', JString ''Internal server error'')]\<rparr>,
        empty_store)"
    by (simp add: submit_catch_def network_error_def development_def)
  let ?req = "jane\<lparr>body_mobile := NonString True\<rparr>"
  have "upload_within_limit ?req" "body_name ?req = Str ''Jane Doe''"
    "body_email ?req = Str ''jane@example.com''"
    by (simp_all add: jane_def upload_within_limit_def)
  then have "post_api_submit None 7 NoFault (Accepted 0) ?req empty_store
      = (submit_catch None (not_a_function ''mobile''), empty_store)"
    using email_jane trim_jane
    by (simp add: post_api_submit_within submit_handler_def submit_try_checked
          new_Submission_def trim_or_empty_def truthy_def call_trim_def)
  then have m: "post_api_submit None 7 NoFault (Accepted 0) ?req empty_store
     = (\<lparr>status = 500,
         body = [(''error'', JString ''Server error''),
                 (''details'', JString ''Internal server error'')]\<rparr>,
        empty_store)"
    by (simp only: type_error_response)
  have f: "post_api_submit None 7 (Fault field_too_long) (Accepted 0) jane empty_store
     = (\<lparr>status = 500,
         body = [(''error'', JString ''Internal server error''), (''details'', JUndefined)]\<rparr>,
        empty_store)"
    by (simp add: post_api_submit_fault error_middleware_def development_def)
  from d a m f show ?thesis
    by (intro conjI)
qed

section \<open>Rejected saves\<close>

text \<open>
  C4. When the store rejects the save of a request (one that reached the save: the
  parsers handed it on, and it passed the upload limit, the validation and the
  trimming of its optional fields), nothing is stored; a \<open>ValidationError\<close> is answered
  with 400 and the list of the offending fields; any other error is answered with 500
  and a generic message, whose \<open>details\<close> are the error's own message in development
  mode only.
\<close>

theorem rejected_save_response:
  assumes "v = NoFault" and "upload_within_limit req"
    and "body_name req = Str n" and "trim n \<noteq> []"
    and "body_email req = Str e" and "emailRegex_test e"
    and "trimmable (body_mobile req)" and "trimmable (body_message req)"
  shows "snd (post_api_submit node_env now v (Rejected err) req st) = st
     \<and> fst (post_api_submit node_env now v (Rejected err) req st) =
        (if err_name err = ''ValidationError'' then
           \<lparr>status = 400,
            body = [(''error'', JString ''Database validation failed''),
                    (''details'', JString (err_message err)),
                    (''fields'', JArray (map JString (err_errors err)))]\<rparr>
         else
           \<lparr>status = 500,
            body = [(''error'', JString (if err_name err = ''MongoError''
                                           \<or> err_name err = ''MongoServerError''
                                         then ''Database error'' else ''Server error'')),
                    (''details'', JString
                       (if development node_env then err_message err
                        else if err_name err = ''MongoError'' \<or> err_name err = ''MongoServerError''
                        then ''Database connection issue'' else ''Internal server error''))]\<rparr>)"
  using assms by (simp add: post_api_submit_valid submit_catch_def)

text \<open>
  A connectivity error in production and in development mode, and a validation error.
\<close>

theorem rejected_save_response_witness:
  "post_api_submit (Some ''production'') 7 NoFault (Rejected network_error) jane empty_store
     = (\<lparr>status = 500,
         body = [(''error'', JString ''Server error''),
                 (''details'', JString ''Internal server error'')]\<rparr>, empty_store)
   \<and> post_api_submit (Some ''development'') 7 NoFault (Rejected network_error) jane empty_store
     = (\<lparr>status = 500,
         body = [(''error'', JString ''Server error''),
                 (''details'', JString ''connect ECONNREFUSED'')]\<rparr>, empty_store)
   \<and> post_api_submit (Some ''production'') 7 NoFault
        (Rejected \<lparr>err_name = ''ValidationError'',
                   err_message = ''Submission validation failed: email: Path `email` is required.'',
                   err_errors = [''email'']\<rparr>) jane empty_store
     = (\<lparr>status = 400,
         body = [(''error'', JString ''Database validation failed''),
                 (''details'', JString ''Submission validation failed: email: Path `email` is required.''),
                 (''fields'', JArray [JString ''email''])]\<rparr>, empty_store)"
proof -
  note j = refl jane_valid email_jane jane_trimmable
  show ?thesis
    using rejected_save_response [OF j, of "Some ''production''" 7 network_error empty_store]
      rejected_save_response [OF j, of "Some ''development''" 7 network_error empty_store]
      rejected_save_response [OF j, of "Some ''production''" 7
         "\<lparr>err_name = ''ValidationError'',
           err_message = ''Submission validation failed: email: Path `email` is required.'',
           err_errors = [''email'']\<rparr>" empty_store]
    by (simp add: network_error_def development_def prod_eq_iff)
qed

section \<open>Uploads over the size limit\<close>

text \<open>
  C7, as amended. In the variant with the size limit, a request whose file exceeds
  5 MB never reaches the handler: the error handling middleware answers 500 with the
  body \<open>error\<close>, \<open>details\<close> (in development mode only: the message \<open>File too large\<close>,
  or that of an earlier fault of the parsers), and the store is left as it was. The
  limit is 5242880 bytes.
\<close>

theorem oversize_upload_rejected:
  assumes "req_file req = Some u" and "length (buffer u) > fileSize_limit"
  shows "fileSize_limit = 5242880
     \<and> post_api_submit node_env now v outcome req st =
           (\<lparr>status = 500,
             body = [(''error'', JString ''Internal server error''),
                     (''details'',
                      if development node_env
                      then JString (case v of NoFault \<Rightarrow> ''File too large''
                                    | Fault err \<Rightarrow> err_message err)
                      else JUndefined)]\<rparr>, st)"
proof
  show "fileSize_limit = 5242880"
    by (simp add: fileSize_limit_def)
  from assms
  show "post_api_submit node_env now v outcome req st =
           (\<lparr>status = 500,
             body = [(''error'', JString ''Internal server error''),
                     (''details'',
                      if development node_env
                      then JString (case v of NoFault \<Rightarrow> ''File too large''
                                    | Fault err \<Rightarrow> err_message err)
                      else JUndefined)]\<rparr>, st)"
    by (cases v) (simp_all add: post_api_submit_def upload_single_def error_middleware_def)
qed

text \<open>A file of 5 MB and one byte, in production and in development mode.\<close>

theorem oversize_upload_rejected_witness:
  "length (buffer big_file) = 5242881 \<and> fileSize_limit < length (buffer big_file)
   \<and> post_api_submit (Some ''production'') 7 NoFault (Accepted 0)
        (jane\<lparr>req_file := Some big_file\<rparr>) empty_store =
       (\<lparr>status = 500,
         body = [(''error'', JString ''Internal server error''), (''details'', JUndefined)]\<rparr>,
        empty_store)
   \<and> post_api_submit (Some ''development'') 7 NoFault (Accepted 0)
        (jane\<lparr>req_file := Some big_file\<rparr>) empty_store =
       (\<lparr>status = 500,
         body = [(''error'', JString ''Internal server error''),
                 (''details'', JString ''File too large'')]\<rparr>,
        empty_store)"
proof -
  have a: "req_file (jane\<lparr>req_file := Some big_file\<rparr>) = Some big_file"
    by simp
  have b: "fileSize_limit < length (buffer big_file)"
    by (simp add: big_file_def fileSize_limit_def)
  have c: "length (buffer big_file) = 5242881"
    by (simp add: big_file_def)
  from c oversize_upload_rejected [OF a b, of "Some ''production''" 7 NoFault "Accepted 0" empty_store]
    oversize_upload_rejected [OF a b, of "Some ''development''" 7 NoFault "Accepted 0" empty_store] b
  show ?thesis
    by (simp add: development_def)
qed

text \<open>
  C7 as stated fails: for that file the status is 500, not 400, and the body names no
  field.
\<close>

theorem oversize_upload_counterexample:
  "fileSize_limit < length (buffer big_file)
   \<and> status (fst (post_api_submit None 7 NoFault (Accepted 0)
        (jane\<lparr>req_file := Some big_file\<rparr>) empty_store)) = 500
   \<and> body_field (fst (post_api_submit None 7 NoFault (Accepted 0)
        (jane\<lparr>req_file := Some big_file\<rparr>) empty_store)) ''field'' = None"
proof -
  have "fileSize_limit < length (buffer big_file)"
    by (simp add: big_file_def fileSize_limit_def)
  then show ?thesis
    by (simp add: post_api_submit_def big_file_over error_middleware_def body_field_def)
qed

section \<open>The email pattern\<close>

text \<open>
  C3, as amended. In the validating variant, take a request that the body parsers and
  the upload middleware hand on to the handler (its file within the size limit), whose
  name passes its check and whose email is a string. The pattern of the code holds of
  the email exactly when it is one or more non-space, non-@ characters, an @, one or
  more non-space, non-@ characters, a dot, and one or more non-space, non-@ characters.
  An email that does not match is answered with 400 citing the field \<open>email\<close> and
  nothing is stored. An email that matches passes the check: the answer cites no field,
  and it is 201 when the optional fields can be trimmed and the store accepts the save.
  Such an email also matches the pattern as the specification words it.
\<close>

theorem email_format_check:
  assumes "v = NoFault" and "upload_within_limit req"
    and "body_name req = Str n" and "trim n \<noteq> []" and "body_email req = Str e"
  shows "(emailRegex_test e \<longleftrightarrow>
            (\<exists>l d t. e = l @ ''@'' @ d @ ''.'' @ t \<and> l \<noteq> [] \<and> d \<noteq> [] \<and> t \<noteq> []
               \<and> (\<forall>c \<in> set (l @ d @ t). \<not> is_space c \<and> c \<noteq> CHR ''@'')))
     \<and> (\<not> emailRegex_test e \<longrightarrow>
            snd (post_api_submit node_env now v outcome req st) = st
          \<and> status (fst (post_api_submit node_env now v outcome req st)) = 400
          \<and> body_field (fst (post_api_submit node_env now v outcome req st)) ''field''
              = Some (JString ''email''))
     \<and> (emailRegex_test e \<longrightarrow>
            body_field (fst (post_api_submit node_env now v outcome req st)) ''field'' = None)
     \<and> (emailRegex_test e \<and> trimmable (body_mobile req) \<and> trimmable (body_message req) \<longrightarrow>
            status (fst (post_api_submit node_env now v (Accepted i) req st)) = 201)
     \<and> (emailRegex_test e \<longrightarrow> spec_email_pattern e)"
proof (intro conjI impI)
  show "emailRegex_test e \<longleftrightarrow>
            (\<exists>l d t. e = l @ ''@'' @ d @ ''.'' @ t \<and> l \<noteq> [] \<and> d \<noteq> [] \<and> t \<noteq> []
               \<and> (\<forall>c \<in> set (l @ d @ t). \<not> is_space c \<and> c \<noteq> CHR ''@''))"
    by (rule emailRegex_shape)
next
  assume bad: "\<not> emailRegex_test e"
  with assms have eq: "post_api_submit node_env now v outcome req st
      = (if trim e = [] then email_required else email_invalid, st)"
    by (simp add: post_api_submit_within submit_handler_bad_email)
  show "snd (post_api_submit node_env now v outcome req st) = st"
    by (simp add: eq)
  show "status (fst (post_api_submit node_env now v outcome req st)) = 400"
    by (simp add: eq email_required_def email_invalid_def)
  show "body_field (fst (post_api_submit node_env now v outcome req st)) ''field''
          = Some (JString ''email'')"
    by (simp add: eq email_required_def email_invalid_def body_field_def)
next
  assume ok: "emailRegex_test e"
  have fields: "\<And>err. body_field (submit_catch node_env err) ''field'' = None"
    by (simp add: submit_catch_def body_field_def)
  from assms ok have "post_api_submit node_env now v outcome req st =
      (case submit_try now outcome req st of
         Inr r \<Rightarrow> r | Inl err \<Rightarrow> (submit_catch node_env err, st))"
    by (simp add: post_api_submit_within submit_handler_def)
  moreover from assms ok have "submit_try now outcome req st =
           (case new_Submission now n e req of
              Inl err \<Rightarrow> Inl err
            | Inr d \<Rightarrow>
                (case save outcome d st of
                   (Inr i, st') \<Rightarrow> Inr (created i, st')
                 | (Inl err, st') \<Rightarrow> Inl err))"
    by (simp add: submit_try_checked)
  ultimately show "body_field (fst (post_api_submit node_env now v outcome req st)) ''field'' = None"
    using fields
    by (auto simp: created_def body_field_def split: sum.splits prod.splits)
next
  assume "emailRegex_test e \<and> trimmable (body_mobile req) \<and> trimmable (body_message req)"
  with assms show "status (fst (post_api_submit node_env now v (Accepted i) req st)) = 201"
    by (simp add: post_api_submit_valid created_def)
next
  assume "emailRegex_test e"
  then show "spec_email_pattern e"
    by (rule emailRegex_imp_spec)
qed

text \<open>An email without @ is refused; the address of the scenario passes.\<close>

theorem email_format_check_witness:
  "\<not> emailRegex_test ''not-an-email''
   \<and> post_api_submit None 7 NoFault (Accepted 0) (jane\<lparr>body_email := Str ''not-an-email''\<rparr>)
        empty_store
       = (email_invalid, empty_store)
   \<and> emailRegex_test ''jane@example.com''
   \<and> trimmable (body_mobile jane) \<and> trimmable (body_message jane)
   \<and> status (fst (post_api_submit None 7 NoFault (Accepted 0) jane empty_store)) = 201"
proof -
  let ?req = "jane\<lparr>body_email := Str ''not-an-email''\<rparr>"
  have j: "upload_within_limit ?req" "body_name ?req = Str ''Jane Doe''"
    "trim ''Jane Doe'' \<noteq> []" "body_email ?req = Str ''not-an-email''"
    by (simp_all add: jane_def upload_within_limit_def trim_jane)
  have t: "trim ''not-an-email'' \<noteq> []"
    by (simp add: trim_def is_space_def)
  have "post_api_submit None 7 NoFault (Accepted 0) ?req empty_store
       = (email_invalid, empty_store)"
    using j email_no_at t by (simp add: post_api_submit_within submit_handler_bad_email)
  then show ?thesis
    using email_format_check [OF refl j, of None 7 "Accepted 0" empty_store 0]
      email_format_check [OF refl jane_valid, of None 7 "Accepted 0" empty_store 0]
      email_no_at email_jane jane_trimmable
    by simp
qed

text \<open>
  C3 as stated fails. The address \<open>a@b.c@d\<close> matches the pattern as worded (non-space
  characters after the dot), yet the code refuses it, since its last class excludes @
  too. A request without a name whose email matches neither pattern is answered citing
  the field \<open>name\<close>, not \<open>email\<close>: the name is checked first. And an email sent twice
  reaches the handler as an array, present and matching no pattern: \<^verbatim>\<open>email.trim\<close>
  throws and the answer is 500.
\<close>

theorem email_format_counterexample:
  "spec_email_pattern ''a@b.c@d''
   \<and> post_api_submit None 7 NoFault (Accepted 0) (jane\<lparr>body_email := Str ''a@b.c@d''\<rparr>)
        empty_store
       = (email_invalid, empty_store)
   \<and> \<not> spec_email_pattern ''not-an-email''
   \<and> post_api_submit None 7 NoFault (Accepted 0)
        (jane\<lparr>body_name := Undefined, body_email := Str ''not-an-email''\<rparr>) empty_store
       = (name_required, empty_store)
   \<and> body_field name_required ''field'' = Some (JString ''name'')
   \<and> post_api_submit None 7 NoFault (Accepted 0) (jane\<lparr>body_email := NonString True\<rparr>)
        empty_store
       = (\<lparr>status = 500,
           body = [(''error'', JString ''Server error''),
                   (''details'', JString ''Internal server error'')]\<rparr>, empty_store)"
proof -
  let ?req = "jane\<lparr>body_email := Str ''a@b.c@d''\<rparr>"
  have j: "upload_within_limit ?req" "body_name ?req = Str ''Jane Doe''"
    "trim ''Jane Doe'' \<noteq> []" "body_email ?req = Str ''a@b.c@d''"
    by (simp_all add: jane_def upload_within_limit_def trim_jane)
  have t: "trim ''a@b.c@d'' \<noteq> []"
    by (simp add: trim_def is_space_def)
  have a: "post_api_submit None 7 NoFault (Accepted 0) ?req empty_store
       = (email_invalid, empty_store)"
    using j email_two_ats t by (simp add: post_api_submit_within submit_handler_bad_email)
  let ?noname = "jane\<lparr>body_name := Undefined, body_email := Str ''not-an-email''\<rparr>"
  have "upload_within_limit ?noname" "blank (body_name ?noname)"
    by (simp_all add: jane_def upload_within_limit_def blank_def)
  then have b: "post_api_submit None 7 NoFault (Accepted 0) ?noname empty_store
       = (name_required, empty_store)"
    by (simp add: post_api_submit_within submit_handler_blank_name)
  have f: "body_field name_required ''field'' = Some (JString ''name'')"
    by (simp add: name_required_def body_field_def)
  let ?twice = "jane\<lparr>body_email := NonString True\<rparr>"
  have "upload_within_limit ?twice" "body_name ?twice = Str ''Jane Doe''"
    "body_email ?twice = NonString True"
    by (simp_all add: jane_def upload_within_limit_def)
  then have "post_api_submit None 7 NoFault (Accepted 0) ?twice empty_store
       = (submit_catch None (not_a_function ''email''), empty_store)"
    using trim_jane by (simp add: post_api_submit_within submit_handler_email_not_text)
  then have c: "post_api_submit None 7 NoFault (Accepted 0) ?twice empty_store
       = (\<lparr>status = 500,
           body = [(''error'', JString ''Server error''),
                   (''details'', JString ''Internal server error'')]\<rparr>, empty_store)"
    by (simp only: type_error_response)
  from spec_pattern_two_ats a spec_pattern_no_at b f c show ?thesis
    by (intro conjI)
qed

section \<open>White space around the email\<close>

text \<open>
  C9, as amended. In the validating variant, take a request that the body parsers and
  the upload middleware hand on to the handler (its file within the size limit) and
  whose name passes its check. If its email is a pattern-valid address with white space
  before or after it, the answer is 400 citing the field \<open>email\<close> and the store is
  untouched: the pattern is tried on the untrimmed email. The same white space around
  the name is accepted: with the bare address as email, optional fields that can be
  trimmed and a store that accepts the save, the answer is 201 and the document holds
  the trimmed name and the trimmed email.
\<close>

theorem padded_email_rejected:
  assumes "v = NoFault" and "upload_within_limit req"
    and "body_name req = Str n" and "trim n \<noteq> []"
    and "body_email req = Str (l @ a @ r)" and "emailRegex_test a"
    and "\<forall>c \<in> set (l @ r). is_space c" and "l @ r \<noteq> []"
  shows "post_api_submit node_env now v outcome req st = (email_invalid, st)
     \<and> status email_invalid = 400
     \<and> body_field email_invalid ''field'' = Some (JString ''email'')
     \<and> (trimmable (body_mobile req) \<and> trimmable (body_message req) \<longrightarrow>
        post_api_submit node_env now v (Accepted i)
          (req\<lparr>body_name := Str (l @ n @ r), body_email := Str a\<rparr>) st
        = (\<lparr>status = 201,
            body = [(''success'', JBool True),
                    (''message'', JString ''Submission saved successfully''),
                    (''submissionId'', JObjectId i)]\<rparr>,
           st\<lparr>docs := docs st @
                  [(i, \<lparr>name = trim n, email = trim a, mobile = trimmed (body_mobile req),
                        message = trimmed (body_message req),
                        resume = (case req_file req of
                                    None \<Rightarrow> None
                                  | Some u \<Rightarrow> Some \<lparr>data = buffer u, contentType = mimetype u,
                                                    originalName = originalname u\<rparr>),
                        createdAt = now\<rparr>)]\<rparr>))"
proof (intro conjI impI)
  from assms(7,8) obtain c where c: "c \<in> set (l @ a @ r)" "is_space c"
    by (cases l; cases r) auto
  then have bad: "\<not> emailRegex_test (l @ a @ r)"
    using emailRegex_no_space by blast
  from assms(6) have "\<not> (\<forall>c \<in> set a. is_space c)"
    using emailRegex_no_space emailRegex_nonempty by (cases a) auto
  then have "trim a \<noteq> []"
    by (simp add: trim_eq_Nil_iff)
  moreover from assms(7) have "trim (l @ a @ r) = trim a"
    by (simp add: trim_pad)
  ultimately have "trim (l @ a @ r) \<noteq> []"
    by simp
  with assms(1-5) bad show "post_api_submit node_env now v outcome req st = (email_invalid, st)"
    by (simp add: post_api_submit_within submit_handler_bad_email)
next
  show "status email_invalid = 400"
    by (simp add: email_invalid_def)
next
  show "body_field email_invalid ''field'' = Some (JString ''email'')"
    by (simp add: email_invalid_def body_field_def)
next
  assume tr: "trimmable (body_mobile req) \<and> trimmable (body_message req)"
  let ?req = "req\<lparr>body_name := Str (l @ n @ r), body_email := Str a\<rparr>"
  from assms(7) have t: "trim (l @ n @ r) = trim n"
    by (simp add: trim_pad)
  from assms(2) have "upload_within_limit ?req"
    by (simp add: upload_within_limit_def)
  moreover have "body_name ?req = Str (l @ n @ r)" "body_email ?req = Str a"
    by simp_all
  moreover from t assms(4) have "trim (l @ n @ r) \<noteq> []"
    by simp
  moreover from tr have "trimmable (body_mobile ?req)" "trimmable (body_message ?req)"
    by simp_all
  ultimately have "post_api_submit node_env now NoFault (Accepted i) ?req st =
      (created i, st\<lparr>docs := docs st @ [(i, document_of now (l @ n @ r) a ?req)]\<rparr>)"
    using assms(6) by (simp add: post_api_submit_valid)
  then show "post_api_submit node_env now v (Accepted i) ?req st
        = (\<lparr>status = 201,
            body = [(''success'', JBool True),
                    (''message'', JString ''Submission saved successfully''),
                    (''submissionId'', JObjectId i)]\<rparr>,
           st\<lparr>docs := docs st @
                  [(i, \<lparr>name = trim n, email = trim a, mobile = trimmed (body_mobile req),
                        message = trimmed (body_message req),
                        resume = (case req_file req of
                                    None \<Rightarrow> None
                                  | Some u \<Rightarrow> Some \<lparr>data = buffer u, contentType = mimetype u,
                                                    originalName = originalname u\<rparr>),
                        createdAt = now\<rparr>)]\<rparr>)"
    using assms(1) by (simp add: document_of_def created_def t)
qed

text \<open>One space on each side of the address, then of the name.\<close>

theorem padded_email_rejected_witness:
  "post_api_submit None 7 NoFault (Accepted 0) (jane\<lparr>body_email := Str '' jane@example.com ''\<rparr>)
      empty_store
     = (email_invalid, empty_store)
   \<and> post_api_submit None 7 NoFault (Accepted 0) (jane\<lparr>body_name := Str '' Jane Doe ''\<rparr>)
      empty_store
     = (\<lparr>status = 201,
         body = [(''success'', JBool True),
                 (''message'', JString ''Submission saved successfully''),
                 (''submissionId'', JObjectId 0)]\<rparr>,
        \<lparr>docs = [(0, \<lparr>name = ''Jane Doe'', email = ''jane@example.com'', mobile = [],
                       message = [], resume = None, createdAt = 7\<rparr>)]\<rparr>)"
proof -
  let ?req = "jane\<lparr>body_email := Str ('' '' @ ''jane@example.com'' @ '' '')\<rparr>"
  have h: "upload_within_limit ?req" "body_name ?req = Str ''Jane Doe''"
    "trim ''Jane Doe'' \<noteq> []"
    "body_email ?req = Str ('' '' @ ''jane@example.com'' @ '' '')"
    by (simp_all add: jane_def upload_within_limit_def trim_jane)
  have sp: "\<forall>c \<in> set ('' '' @ '' ''). is_space c" "'' '' @ '' '' \<noteq> []"
    by (simp_all add: is_space_def)
  have tr: "trimmable (body_mobile ?req)" "trimmable (body_message ?req)"
    by (simp_all add: jane_def trimmable_def)
  from padded_email_rejected [OF refl h email_jane sp, of None 7 "Accepted 0" empty_store 0] tr
  show ?thesis
    by (simp add: jane_def empty_store_def trim_jane emailRegex_trim [OF email_jane]
          trimmed_def)
qed

text \<open>
  C9 as stated fails: with the name missing the same padded email is answered citing
  the field \<open>name\<close>; with a file over the limit, or when multer refuses the request for
  a text field that is too long, the answer is 500.
\<close>

theorem padded_email_counterexample:
  "emailRegex_test ''jane@example.com''
   \<and> post_api_submit None 7 NoFault (Accepted 0)
        (jane\<lparr>body_name := Undefined, body_email := Str '' jane@example.com ''\<rparr>) empty_store
       = (name_required, empty_store)
   \<and> body_field name_required ''field'' = Some (JString ''name'')
   \<and> status (fst (post_api_submit None 7 NoFault (Accepted 0)
        (jane\<lparr>body_email := Str '' jane@example.com '', req_file := Some big_file\<rparr>)
        empty_store)) = 500
   \<and> status (fst (post_api_submit None 7 (Fault field_too_long) (Accepted 0)
        (jane\<lparr>body_email := Str '' jane@example.com ''\<rparr>) empty_store)) = 500"
proof -
  let ?noname = "jane\<lparr>body_name := Undefined, body_email := Str '' jane@example.com ''\<rparr>"
  have "upload_within_limit ?noname" "blank (body_name ?noname)"
    by (simp_all add: jane_def upload_within_limit_def blank_def)
  then have b: "post_api_submit None 7 NoFault (Accepted 0) ?noname empty_store
       = (name_required, empty_store)"
    by (simp add: post_api_submit_within submit_handler_blank_name)
  have f: "body_field name_required ''field'' = Some (JString ''name'')"
    by (simp add: name_required_def body_field_def)
  have o: "status (fst (post_api_submit None 7 NoFault (Accepted 0)
        (jane\<lparr>body_email := Str '' jane@example.com '', req_file := Some big_file\<rparr>)
        empty_store)) = 500"
    by (simp add: post_api_submit_def big_file_over error_middleware_def)
  have m: "status (fst (post_api_submit None 7 (Fault field_too_long) (Accepted 0)
        (jane\<lparr>body_email := Str '' jane@example.com ''\<rparr>) empty_store)) = 500"
    by (simp add: post_api_submit_fault error_middleware_def)
  from email_jane b f o m show ?thesis
    by (intro conjI)
qed

section \<open>Reading a document back\<close>

text \<open>
  C5, as amended. In the validating variant, take a request that the body parsers and
  the upload middleware hand on to the handler (its file within the size limit), that
  passes the validation, whose mobile and message are each a string, absent or falsy,
  and whose save the store accepts under an identifier not yet in use. The document the
  handler builds and hands to the store holds the trimmed name and email, the trimmed
  mobile and message (the empty string for one that is not a string), the bytes, content
  type and original name of the file, and the creation time; the collection gains
  exactly this document under the identifier that the response returns; and a store
  that returns what it accepted gives it back under that identifier.
\<close>

theorem stored_document_round_trip:
  assumes "findById i st = None"
    and "v = NoFault" and "upload_within_limit req"
    and "body_name req = Str n" and "trim n \<noteq> []"
    and "body_email req = Str e" and "emailRegex_test e"
    and "trimmable (body_mobile req)" and "trimmable (body_message req)"
  shows
    "(let d = \<lparr>name = trim n, email = trim e,
               mobile = (case body_mobile req of Str m \<Rightarrow> trim m | _ \<Rightarrow> []),
               message = (case body_message req of Str m \<Rightarrow> trim m | _ \<Rightarrow> []),
               resume = (case req_file req of
                           None \<Rightarrow> None
                         | Some u \<Rightarrow> Some \<lparr>data = buffer u, contentType = mimetype u,
                                           originalName = originalname u\<rparr>),
               createdAt = now\<rparr>
      in new_Submission now n e req = Inr d
       \<and> body_field (fst (post_api_submit node_env now v (Accepted i) req st)) ''submissionId''
           = Some (JObjectId i)
       \<and> docs (snd (post_api_submit node_env now v (Accepted i) req st)) = docs st @ [(i, d)]
       \<and> findById i (snd (post_api_submit node_env now v (Accepted i) req st)) = Some d)"
proof -
  have d: "document_of now n e req =
      \<lparr>name = trim n, email = trim e,
       mobile = (case body_mobile req of Str m \<Rightarrow> trim m | _ \<Rightarrow> []),
       message = (case body_message req of Str m \<Rightarrow> trim m | _ \<Rightarrow> []),
       resume = (case req_file req of
                   None \<Rightarrow> None
                 | Some u \<Rightarrow> Some \<lparr>data = buffer u, contentType = mimetype u,
                                   originalName = originalname u\<rparr>),
       createdAt = now\<rparr>"
    by (simp add: document_of_def trimmed_def)
  have post: "post_api_submit node_env now v (Accepted i) req st =
      (created i, st\<lparr>docs := docs st @ [(i, document_of now n e req)]\<rparr>)"
    using assms by (simp add: post_api_submit_valid)
  from assms(1) have "map_of (docs st @ [(i, document_of now n e req)]) i
      = Some (document_of now n e req)"
    unfolding findById_def by (rule map_of_fresh)
  then have "findById i (snd (post_api_submit node_env now v (Accepted i) req st))
      = Some (document_of now n e req)"
    by (simp add: post findById_def del: map_of_append)
  moreover have "new_Submission now n e req = Inr (document_of now n e req)"
    using assms(8,9) by (rule new_Submission_trimmable)
  moreover have "body_field (fst (post_api_submit node_env now v (Accepted i) req st))
      ''submissionId'' = Some (JObjectId i)"
    by (simp add: post created_def body_field_def)
  moreover have "docs (snd (post_api_submit node_env now v (Accepted i) req st))
      = docs st @ [(i, document_of now n e req)]"
    by (simp add: post)
  ultimately show ?thesis
    unfolding Let_def d [symmetric] by (intro conjI)
qed

text \<open>White space around the name and before the mobile number, and a four-byte file.\<close>

theorem stored_document_round_trip_witness:
  "findById 0 (empty_store :: submission store) = None
   \<and> body_field (fst (post_api_submit None 7 NoFault (Accepted 0) padded empty_store))
        ''submissionId'' = Some (JObjectId 0)
   \<and> findById 0 (snd (post_api_submit None 7 NoFault (Accepted 0) padded empty_store))
       = Some \<lparr>name = ''Jane Doe'', email = ''jane@example.com'', mobile = ''555 0100'',
                message = [],
                resume = Some \<lparr>data = [37, 80, 68, 70], contentType = ''application/pdf'',
                                originalName = ''cv.pdf''\<rparr>,
                createdAt = 7\<rparr>"
proof -
  have f: "findById 0 (empty_store :: submission store) = None"
    by (simp add: findById_def empty_store_def)
  have t: "trim '' Jane Doe '' = ''Jane Doe''" "trim '' 555 0100'' = ''555 0100''"
    by (simp_all add: trim_def is_space_def)
  from stored_document_round_trip
    [OF f refl padded_valid email_jane padded_trimmable, where node_env = None and now = 7] f
  show ?thesis
    by (simp add: Let_def t emailRegex_trim [OF email_jane] padded_def small_file_def)
qed

text \<open>
  C5 as stated fails: the disk-storage handler stores the fields as they were sent, so
  the name read back keeps its white space; the file is kept as its path.
\<close>

theorem stored_document_counterexample:
  "trim '' Jane Doe '' = ''Jane Doe''
   \<and> findById 0 (snd (submit_handler_disk 1700000000000 7 (Accepted 0)
         (jane\<lparr>body_name := Str '' Jane Doe '', req_file := Some small_file\<rparr>) empty_store))
       = Some \<lparr>d_name = Str '' Jane Doe '', d_email = Str ''jane@example.com'',
                d_mobile = Undefined, d_message = Undefined,
                d_resumePath = ''uploads/1700000000000_cv.pdf'', d_createdAt = 7\<rparr>"
proof -
  have "show_nat 1700000000000 = ''1700000000000''"
    by (simp add: digit_char_def)
  then show ?thesis
    by (simp add: trim_def is_space_def submit_handler_disk_def save_def empty_store_def
          jane_def findById_def diskStorage_path_def diskStorage_filename_def small_file_def)
qed

section \<open>Optional fields\<close>

text \<open>
  C6, as amended. In the validating variant, for a request that is persisted (the
  parsers hand it on, it passes the upload limit, the validation and the trimming of its
  optional fields, and the store accepts the save under an identifier not yet in use),
  the stored document holds the empty string for a mobile field that was not sent, and
  likewise for the message.
\<close>

theorem absent_optional_fields_empty:
  assumes "findById i st = None"
    and "v = NoFault" and "upload_within_limit req"
    and "body_name req = Str n" and "trim n \<noteq> []"
    and "body_email req = Str e" and "emailRegex_test e"
    and "trimmable (body_mobile req)" and "trimmable (body_message req)"
  shows "(body_mobile req = Undefined \<longrightarrow>
            map_option mobile
              (findById i (snd (post_api_submit node_env now v (Accepted i) req st)))
            = Some [])
     \<and> (body_message req = Undefined \<longrightarrow>
            map_option message
              (findById i (snd (post_api_submit node_env now v (Accepted i) req st)))
            = Some [])"
proof -
  have post: "post_api_submit node_env now v (Accepted i) req st =
      (created i, st\<lparr>docs := docs st @ [(i, document_of now n e req)]\<rparr>)"
    using assms by (simp add: post_api_submit_valid)
  from assms(1) have "map_of (docs st @ [(i, document_of now n e req)]) i
      = Some (document_of now n e req)"
    unfolding findById_def by (rule map_of_fresh)
  then have "findById i (snd (post_api_submit node_env now v (Accepted i) req st))
      = Some (document_of now n e req)"
    by (simp add: post findById_def del: map_of_append)
  then show ?thesis
    by (simp add: document_of_def trimmed_def)
qed

text \<open>The scenario of the specification sends neither field.\<close>

theorem absent_optional_fields_empty_witness:
  "findById 0 (empty_store :: submission store) = None
   \<and> body_mobile jane = Undefined \<and> body_message jane = Undefined
   \<and> map_option mobile
       (findById 0 (snd (post_api_submit None 7 NoFault (Accepted 0) jane empty_store)))
       = Some []
   \<and> map_option message
       (findById 0 (snd (post_api_submit None 7 NoFault (Accepted 0) jane empty_store)))
       = Some []"
proof -
  have f: "findById 0 (empty_store :: submission store) = None"
    by (simp add: findById_def empty_store_def)
  from absent_optional_fields_empty
    [OF f refl jane_valid email_jane jane_trimmable, where node_env = None and now = 7] f
  show ?thesis
    by (simp add: jane_def)
qed

text \<open>
  C6 as stated fails: the disk-storage handler passes the absent fields on as they
  are, and its schema has no default for them, so the stored document has no mobile and
  no message rather than empty strings.
\<close>

theorem absent_optional_fields_counterexample:
  "body_mobile jane = Undefined \<and> body_message jane = Undefined
   \<and> findById 0 (snd (submit_handler_disk 3 7 (Accepted 0) jane empty_store))
       = Some \<lparr>d_name = Str ''Jane Doe'', d_email = Str ''jane@example.com'',
                d_mobile = Undefined, d_message = Undefined, d_resumePath = [],
                d_createdAt = 7\<rparr>"
  by (simp add: submit_handler_disk_def save_def empty_store_def jane_def findById_def)

section \<open>Submitting twice\<close>




section \<open>The health endpoint\<close>

text \<open>
  C10. \<^verbatim>\<open>GET /api/health\<close> answers 200 with status \<open>healthy\<close> whatever the state of
  the connection; the \<open>database\<close> field is \<open>connected\<close> when \<^verbatim>\<open>readyState\<close> is 1 and
  \<open>disconnected\<close> otherwise; the body also carries the timestamp and the configured
  origins: the front end of the environment (the local default when it is unset or
  empty), the two fixed origins and the pattern.
\<close>

theorem health_always_healthy:
  "status (get_api_health readyState now frontend_url) = 200
   \<and> map_of (body (get_api_health readyState now frontend_url)) ''status'' = Some (JString ''healthy'')
   \<and> map_of (body (get_api_health readyState now frontend_url)) ''database''
       = Some (JString (if readyState = 1 then ''connected'' else ''disconnected''))
   \<and> map_of (body (get_api_health readyState now frontend_url)) ''timestamp'' = Some (JDate now)
   \<and> map_of (body (get_api_health readyState now frontend_url)) ''cors''
       = Some (JArray
           [JString (case frontend_url of
                       None \<Rightarrow> ''http://localhost:5173''
                     | Some u \<Rightarrow> if u = [] then ''http://localhost:5173'' else u),
            JString ''https://apply4me-frontend.vercel.app'',
            JString ''https://apply4me-frontend-9tjtasn0b-alunixs-projects.vercel.app'',
            JWildcard ''https://apply4me-frontend'' ''.vercel.app''])
   \<and> map fst (body (get_api_health readyState now frontend_url))
       = [''status'', ''database'', ''timestamp'', ''cors'']"
  by (simp add: get_api_health_def corsOptions_origin_def)

text \<open>
  Disconnected with no front end configured; connected with one configured; and an
  empty setting, which falls back to the default.
\<close>

theorem health_always_healthy_witness:
  "get_api_health 0 1700000000000 None =
     \<lparr>status = 200,
      body = [(''status'', JString ''healthy''),
              (''database'', JString ''disconnected''),
              (''timestamp'', JDate 1700000000000),
              (''cors'', JArray [JString ''http://localhost:5173'',
                                 JString ''https://apply4me-frontend.vercel.app'',
                                 JString ''https://apply4me-frontend-9tjtasn0b-alunixs-projects.vercel.app'',
                                 JWildcard ''https://apply4me-frontend'' ''.vercel.app''])]\<rparr>
   \<and> get_api_health 1 1700000000000 (Some ''https://apply4me.example'') =
     \<lparr>status = 200,
      body = [(''status'', JString ''healthy''),
              (''database'', JString ''connected''),
              (''timestamp'', JDate 1700000000000),
              (''cors'', JArray [JString ''https://apply4me.example'',
                                 JString ''https://apply4me-frontend.vercel.app'',
                                 JString ''https://apply4me-frontend-9tjtasn0b-alunixs-projects.vercel.app'',
                                 JWildcard ''https://apply4me-frontend'' ''.vercel.app''])]\<rparr>
   \<and> map_of (body (get_api_health 2 1700000000000 (Some ''''))) ''cors''
       = Some (JArray [JString ''http://localhost:5173'',
                       JString ''https://apply4me-frontend.vercel.app'',
                       JString ''https://apply4me-frontend-9tjtasn0b-alunixs-projects.vercel.app'',
                       JWildcard ''https://apply4me-frontend'' ''.vercel.app''])
   \<and> map_of (body (get_api_health 2 1700000000000 (Some ''''))) ''database''
       = Some (JString ''disconnected'')"
proof -
  have shape: "\<And>r. status r = 200 \<Longrightarrow> map fst (body r) = [''status'', ''database'', ''timestamp'', ''cors'']
      \<Longrightarrow> r = \<lparr>status = 200,
               body = [(''status'', the (map_of (body r) ''status'')),
                       (''database'', the (map_of (body r) ''database'')),
                       (''timestamp'', the (map_of (body r) ''timestamp'')),
                       (''cors'', the (map_of (body r) ''cors''))]\<rparr>"
    by (auto simp: map_eq_Cons_conv)
  show ?thesis
    using health_always_healthy [of 0 1700000000000 None]
      health_always_healthy [of 1 1700000000000 "Some ''https://apply4me.example''"]
      health_always_healthy [of 2 1700000000000 "Some ''''"]
      shape [of "get_api_health 0 1700000000000 None"]
      shape [of "get_api_health 1 1700000000000 (Some ''https://apply4me.example'')"]
    by simp
qed

end
